theory Spec2Isabelle
  imports Main
begin

section \<open>The disk plugin's utilities (pkg/disk/utils.go)\<close>

text \<open>
  The Go file talks to its surroundings through the process environment, the instance
  metadata service, the ECS SDK, plain HTTP and the shell. Each of these collaborators is
  a field of the record \<open>world\<close>; every function of the file takes the world as its first
  argument and returns, next to its Go result, the list of outside calls it made, in the
  order the Go code makes them.

  Go strings are byte sequences, here \<open>string\<close> (a list of 8-bit characters). A Go
  \<open>error\<close> is a value carrying its message; \<open>nil\<close> pointers and \<open>nil\<close> errors are the
  \<open>None\<close> of an option or the other side of a sum.
\<close>

subsection \<open>Constants\<close>

definition METADATA_URL :: string where
  "METADATA_URL = ''http://100.100.100.200/latest/meta-data/''"

definition REGIONID_TAG :: string where
  "REGIONID_TAG = ''region-id''"

definition ZONEID_TAG :: string where
  "ZONEID_TAG = ''zone-id''"

definition DISK_HIGH_AVAIL :: string where
  "DISK_HIGH_AVAIL = ''available''"

definition DISK_COMMON :: string where
  "DISK_COMMON = ''cloud''"

definition DISK_EFFICIENCY :: string where
  "DISK_EFFICIENCY = ''cloud_efficiency''"

definition DISK_SSD :: string where
  "DISK_SSD = ''cloud_ssd''"

definition DEFAULT_REGION :: string where
  "DEFAULT_REGION = ''cn-hangzhou''"

subsection \<open>Data\<close>

text \<open>A Go error value: \<open>Error msg\<close> is an error whose \<open>Error()\<close> method returns \<open>msg\<close>.\<close>

datatype error = Error string

fun error_message :: "error \<Rightarrow> string" where
  "error_message (Error msg) = msg"

text \<open>The fields of the SDK's \<open>metadata.RoleAuth\<close> that \<open>GetSTSAK\<close> reads.\<close>

record RoleAuth =
  AccessKeyId :: string
  AccessKeySecret :: string
  SecurityToken :: string

text \<open>
  What \<open>http.Get\<close> hands back when it does not fail: the status code and the outcome of
  reading the body to its end (\<open>ioutil.ReadAll\<close>), which can fail as well.
\<close>

record Response =
  StatusCode :: int
  Body :: "error + string"

text \<open>
  Modelled from the spec: the struct \<open>diskVolumeArgs\<close>, which is declared in a file of
  the package that is not among the sources. The spec's VolumeRequest has a zone, a region,
  a filesystem type, a category, a read-only flag and an encrypted flag; these are the six
  fields \<open>getDiskVolumeOptions\<close> assigns, under the names the Go code gives them.
\<close>

record diskVolumeArgs =
  Type :: string
  RegionId :: string
  ZoneId :: string
  FsType :: string
  ReadOnly :: bool
  Encrypted :: bool

text \<open>
  The collaborators. \<open>'c\<close> stands for the SDK's \<open>ecs.Client\<close>.
  \<^item> \<open>Getenv\<close>: \<open>os.Getenv\<close>, the empty string for an unset variable;
  \<^item> \<open>meta_Role\<close>, \<open>meta_RamRoleToken\<close>: the two calls on \<open>metadata.NewMetaData(nil)\<close>;
  \<open>Inl\<close> is a non-nil error;
  \<^item> \<open>http_Get\<close>: \<open>http.Get\<close>;
  \<^item> \<open>ecs_NewClientWithAccessKey\<close>, \<open>ecs_NewClientWithStsToken\<close>: the SDK's constructors;
  \<^item> \<open>sh_CombinedOutput\<close>: \<open>exec.Command("sh", "-c", cmd).CombinedOutput()\<close>, the output
  together with the error, if any;
  \<^item> \<open>unicode_ToLower\<close>: \<open>strings.Map(unicode.ToLower, s)\<close>, which \<open>strings.ToLower\<close> uses for
  a string with a byte outside ASCII;
  \<^item> \<open>fmt_Sprintf\<close>: \<open>fmt.Sprintf(format)\<close> with no operands, for a format that holds a
  percent sign.
\<close>

record 'c world =
  Getenv :: "string \<Rightarrow> string"
  meta_Role :: "error + string"
  meta_RamRoleToken :: "string \<Rightarrow> error + RoleAuth"
  http_Get :: "string \<Rightarrow> error + Response"
  ecs_NewClientWithAccessKey :: "string \<Rightarrow> string \<Rightarrow> string \<Rightarrow> error + 'c"
  ecs_NewClientWithStsToken :: "string \<Rightarrow> string \<Rightarrow> string \<Rightarrow> string \<Rightarrow> error + 'c"
  sh_CombinedOutput :: "string \<Rightarrow> string \<times> error option"
  unicode_ToLower :: "string \<Rightarrow> string"
  fmt_Sprintf :: "string \<Rightarrow> string"

text \<open>The outside calls a function makes, recorded in order.\<close>

datatype call =
  CallGetenv string
| CallRole
| CallRamRoleToken string
| CallHttpGet string
| CallNewClientWithAccessKey string string string
| CallNewClientWithStsToken string string string string
| CallSh string

fun is_metadata_call :: "call \<Rightarrow> bool" where
  "is_metadata_call CallRole = True"
| "is_metadata_call (CallRamRoleToken _) = True"
| "is_metadata_call (CallHttpGet _) = True"
| "is_metadata_call _ = False"

fun is_client_construction :: "call \<Rightarrow> bool" where
  "is_client_construction (CallNewClientWithAccessKey _ _ _) = True"
| "is_client_construction (CallNewClientWithStsToken _ _ _ _) = True"
| "is_client_construction _ = False"

subsection \<open>Credentials\<close>

definition GetLocalAK :: "'c world \<Rightarrow> (string \<times> string) \<times> call list" where
  "GetLocalAK w =
     (let accessKeyID = Getenv w ''ACCESS_KEY_ID'';
          accessSecret = Getenv w ''ACCESS_KEY_SECRET''
      in ((if accessKeyID \<noteq> '''' \<and> accessSecret \<noteq> ''''
           then (accessKeyID, accessSecret)
           else (accessKeyID, accessSecret)),
          [CallGetenv ''ACCESS_KEY_ID'', CallGetenv ''ACCESS_KEY_SECRET'']))"

definition GetSTSAK :: "'c world \<Rightarrow> (string \<times> string \<times> string) \<times> call list" where
  "GetSTSAK w =
     (case meta_Role w of
        Inl err \<Rightarrow> (('''', '''', ''''), [CallRole])
      | Inr rolename \<Rightarrow>
          (case meta_RamRoleToken w rolename of
             Inl err \<Rightarrow> (('''', '''', ''''), [CallRole, CallRamRoleToken rolename])
           | Inr role \<Rightarrow>
               ((AccessKeyId role, AccessKeySecret role, SecurityToken role),
                [CallRole, CallRamRoleToken rolename])))"

definition GetDefaultAK :: "'c world \<Rightarrow> (string \<times> string \<times> string) \<times> call list" where
  "GetDefaultAK w =
     (case GetLocalAK w of
        ((accessKeyID, accessSecret), calls) \<Rightarrow>
          if accessKeyID = '''' \<or> accessSecret = ''''
          then (case GetSTSAK w of (ak, calls') \<Rightarrow> (ak, calls @ calls'))
          else ((accessKeyID, accessSecret, ''''), calls))"

subsection \<open>The ECS client\<close>

text \<open>A \<open>*ecs.Client\<close> is a pointer: \<open>None\<close> is \<open>nil\<close>.\<close>

definition newEcsClient :: "'c world \<Rightarrow> string \<Rightarrow> string \<Rightarrow> string \<Rightarrow> 'c option \<times> call list" where
  "newEcsClient w access_key_id access_key_secret access_token =
     (if access_token = '''' then
        (case ecs_NewClientWithAccessKey w DEFAULT_REGION access_key_id access_key_secret of
           Inl err \<Rightarrow> None
         | Inr ecsClient \<Rightarrow> Some ecsClient,
         [CallNewClientWithAccessKey DEFAULT_REGION access_key_id access_key_secret])
      else
        (case ecs_NewClientWithStsToken w DEFAULT_REGION access_key_id access_key_secret
                access_token of
           Inl err \<Rightarrow> None
         | Inr ecsClient \<Rightarrow> Some ecsClient,
         [CallNewClientWithStsToken DEFAULT_REGION access_key_id access_key_secret
            access_token]))"

definition updateEcsClent :: "'c world \<Rightarrow> 'c option \<Rightarrow> 'c option \<times> call list" where
  "updateEcsClent w client =
     (case GetDefaultAK w of
        ((accessKeyID, accessSecret, accessToken), calls) \<Rightarrow>
          if accessToken \<noteq> ''''
          then (case newEcsClient w accessKeyID accessSecret accessToken of
                  (client', calls') \<Rightarrow> (client', calls @ calls'))
          else (client, calls))"

subsection \<open>Instance metadata over HTTP\<close>

definition GetMetaData :: "'c world \<Rightarrow> string \<Rightarrow> string \<times> call list" where
  "GetMetaData w resource =
     (case http_Get w (METADATA_URL @ resource) of
        Inl err \<Rightarrow> ('''', [CallHttpGet (METADATA_URL @ resource)])
      | Inr resp \<Rightarrow>
          (case Body resp of
             Inl err \<Rightarrow> ('''', [CallHttpGet (METADATA_URL @ resource)])
           | Inr body \<Rightarrow> (body, [CallHttpGet (METADATA_URL @ resource)])))"

subsection \<open>Go's string helpers\<close>

text \<open>\<open>strings.HasSuffix\<close> and \<open>strings.TrimSuffix\<close>, on bytes.\<close>

definition HasSuffix :: "string \<Rightarrow> string \<Rightarrow> bool" where
  "HasSuffix s suffix =
     (length s \<ge> length suffix \<and> drop (length s - length suffix) s = suffix)"

definition TrimSuffix :: "string \<Rightarrow> string \<Rightarrow> string" where
  "TrimSuffix s suffix =
     (if HasSuffix s suffix then take (length s - length suffix) s else s)"

text \<open>
  \<open>strings.ToLower\<close>: a string of ASCII bytes only (all below \<open>utf8.RuneSelf\<close>, 128) has
  its letters \<open>A\<close> to \<open>Z\<close> moved to \<open>a\<close> to \<open>z\<close>; any other string goes through the
  Unicode tables, which are the world's \<open>unicode_ToLower\<close>.
\<close>

definition is_ascii :: "char \<Rightarrow> bool" where
  "is_ascii c = ((of_char c :: nat) < 128)"

definition lower_ascii :: "char \<Rightarrow> char" where
  "lower_ascii c =
     (if (65::nat) \<le> of_char c \<and> (of_char c :: nat) \<le> 90
      then char_of ((of_char c :: nat) + 32) else c)"

definition ToLower :: "'c world \<Rightarrow> string \<Rightarrow> string" where
  "ToLower w s = (if list_all is_ascii s then map lower_ascii s else unicode_ToLower w s)"

text \<open>
  \<open>strconv.Atoi\<close> on a 64-bit platform: an optional sign, then one or more decimal
  digits and nothing else, and a value that fits a signed 64-bit \<open>int\<close> (from
  \<open>-9223372036854775808\<close> to \<open>9223372036854775807\<close>). \<open>None\<close> is a
  non-nil error (of syntax or of range); its caller here only tests it against \<open>nil\<close>.
\<close>

definition digit_value :: "char \<Rightarrow> int option" where
  "digit_value ch =
     (if (48::int) \<le> of_char ch \<and> (of_char ch :: int) \<le> 57
      then Some ((of_char ch :: int) - 48) else None)"

fun parse_digits :: "string \<Rightarrow> int \<Rightarrow> int option" where
  "parse_digits [] n = Some n"
| "parse_digits (ch # s) n =
     (case digit_value ch of
        None \<Rightarrow> None
      | Some d \<Rightarrow> parse_digits s (n * 10 + d))"

definition Atoi :: "string \<Rightarrow> int option" where
  "Atoi s0 =
     (case s0 of
        [] \<Rightarrow> None
      | c # rest \<Rightarrow>
          (let neg = (c = CHR ''-'');
               s = (if c = CHR ''-'' \<or> c = CHR ''+'' then rest else s0)
           in if s = [] then None
              else (case parse_digits s 0 of
                      None \<Rightarrow> None
                    | Some n \<Rightarrow>
                        if neg then (if n > 9223372036854775808 then None else Some (- n))
                        else (if n \<ge> 9223372036854775808 then None else Some n))))"

subsection \<open>Counting the mounts of a device\<close>

definition run :: "'c world \<Rightarrow> string \<Rightarrow> (error + string) \<times> call list" where
  "run w cmd =
     (case sh_CombinedOutput w cmd of
        (out, Some err) \<Rightarrow>
          (Inl (Error (''Failed to run cmd: '' @ cmd @ '', with out: '' @ out @
                       '', error: '' @ error_message err @ '' '')),
           [CallSh cmd])
      | (out, None) \<Rightarrow> (Inr out, [CallSh cmd]))"

text \<open>
  The two command lines, as \<open>fmt.Sprintf\<close> builds them. \<open>CHR 0x27\<close> is the single quote,
  \<open>CHR 0x22\<close> the double quote and \<open>CHR 0x0A\<close> the newline.
\<close>

definition deviceCmd_of :: "string \<Rightarrow> string" where
  "deviceCmd_of targetPath =
     ''mount | grep '' @ targetPath @ ''  | grep -v grep | awk '' @
     [CHR 0x27] @ ''{print $1}'' @ [CHR 0x27]"

definition deviceNumCmd_of :: "string \<Rightarrow> string" where
  "deviceNumCmd_of deviceCmdOut =
     ''mount | grep '' @ [CHR 0x22] @ deviceCmdOut @ '' '' @ [CHR 0x22] @
     '' | grep -v grep | wc -l''"

definition GetDeviceMountNum :: "'c world \<Rightarrow> string \<Rightarrow> int \<times> call list" where
  "GetDeviceMountNum w targetPath =
     (case run w (deviceCmd_of targetPath) of
        (Inl err, calls) \<Rightarrow> (0, calls)
      | (Inr deviceCmdOut, calls) \<Rightarrow>
          (let deviceCmdOut = TrimSuffix deviceCmdOut [CHR 0x0A] in
           case run w (deviceNumCmd_of deviceCmdOut) of
             (Inl err, calls') \<Rightarrow> (0, calls @ calls')
           | (Inr deviceNumOut, calls') \<Rightarrow>
               (let deviceCmdOut = TrimSuffix deviceCmdOut [CHR 0x0A] in
                case Atoi deviceNumOut of
                  None \<Rightarrow> (0, calls @ calls')
                | Some num \<Rightarrow> (num, calls @ calls'))))"

subsection \<open>Volume options\<close>

text \<open>
  The options are a Go \<open>map[string]string\<close>. The result is \<open>Inl err\<close> for
  \<open>return nil, err\<close> and \<open>Inr args\<close> for \<open>return diskVolArgs, nil\<close>.
\<close>

text \<open>
  \<open>fmt.Errorf(format)\<close> with no operands after the format. A format without a percent sign
  is the message as it stands. A format with one goes through the verb handling of
  \<open>fmt\<close> (a verb that finds no operand prints as \<open>%!d(MISSING)\<close>, say), which is the
  world's \<open>fmt_Sprintf\<close>.
\<close>

definition Errorf :: "'c world \<Rightarrow> string \<Rightarrow> error" where
  "Errorf w format =
     Error (if CHR ''%'' \<in> set format then fmt_Sprintf w format else format)"

text \<open>
  The test that the Go function writes out twice, once for \<open>readOnly\<close> and once for
  \<open>encrypted\<close>: lowercase the value and compare it with the three accepted words.
\<close>

definition truthy :: "'c world \<Rightarrow> string \<Rightarrow> bool" where
  "truthy w v =
     (let value = ToLower w v
      in if value = ''yes'' \<or> value = ''true'' \<or> value = ''1'' then True else False)"

definition getDiskVolumeOptions ::
  "'c world \<Rightarrow> (string \<rightharpoonup> string) \<Rightarrow> (error + diskVolumeArgs) \<times> call list" where
  "getDiskVolumeOptions w volOptions =
     (let diskVolArgs = \<lparr>Type = '''', RegionId = '''', ZoneId = '''', FsType = '''',
                         ReadOnly = False, Encrypted = False\<rparr>;
          (zoneId, calls1) = (case volOptions ''zoneId'' of
                                Some v \<Rightarrow> (v, [])
                              | None \<Rightarrow> GetMetaData w ZONEID_TAG);
          diskVolArgs = diskVolArgs\<lparr>ZoneId := zoneId\<rparr>;
          (regionId, calls2) = (case volOptions ''regionId'' of
                                  Some v \<Rightarrow> (v, [])
                                | None \<Rightarrow> GetMetaData w REGIONID_TAG);
          diskVolArgs = diskVolArgs\<lparr>RegionId := regionId\<rparr>;
          calls = calls1 @ calls2;
          diskVolArgs = diskVolArgs\<lparr>FsType := (case volOptions ''fsType'' of
                                                  Some v \<Rightarrow> v
                                                | None \<Rightarrow> ''ext4'')\<rparr>
      in if FsType diskVolArgs \<noteq> ''ext4'' \<and> FsType diskVolArgs \<noteq> ''ext3''
         then (Inl (Errorf w ''illegal required parameter fsType''), calls)
         else
           (let diskVolArgs = diskVolArgs\<lparr>Type := (case volOptions ''type'' of
                                                      Some v \<Rightarrow> v
                                                    | None \<Rightarrow> DISK_HIGH_AVAIL)\<rparr>
            in if Type diskVolArgs \<noteq> DISK_HIGH_AVAIL \<and> Type diskVolArgs \<noteq> DISK_COMMON
                  \<and> Type diskVolArgs \<noteq> DISK_EFFICIENCY \<and> Type diskVolArgs \<noteq> DISK_SSD
               then (Inl (Errorf w (''Illegal required parameter type'' @ Type diskVolArgs)),
                     calls)
               else
                 (let diskVolArgs = diskVolArgs\<lparr>ReadOnly :=
                        (case volOptions ''readOnly'' of
                           None \<Rightarrow> False
                         | Some v \<Rightarrow> truthy w v)\<rparr>;
                      diskVolArgs = diskVolArgs\<lparr>Encrypted :=
                        (case volOptions ''encrypted'' of
                           None \<Rightarrow> False
                         | Some v \<Rightarrow> truthy w v)\<rparr>
                  in (Inr diskVolArgs, calls))))"

subsection \<open>Example worlds\<close>

text \<open>A world in which nothing works: no variable is set and every outside call fails.\<close>

definition dead_world :: "nat world" where
  "dead_world =
     \<lparr>Getenv = (\<lambda>_. ''''),
      meta_Role = Inl (Error ''timeout''),
      meta_RamRoleToken = (\<lambda>_. Inl (Error ''timeout'')),
      http_Get = (\<lambda>_. Inl (Error ''timeout'')),
      ecs_NewClientWithAccessKey = (\<lambda>_ _ _. Inl (Error ''no client'')),
      ecs_NewClientWithStsToken = (\<lambda>_ _ _ _. Inl (Error ''no client'')),
      sh_CombinedOutput = (\<lambda>_. ('''', Some (Error ''exit status 127''))),
      unicode_ToLower = (\<lambda>s. s),
      fmt_Sprintf = (\<lambda>format. format)\<rparr>"

text \<open>Static keys in the environment.\<close>

definition static_world :: "nat world" where
  "static_world =
     dead_world\<lparr>Getenv := (\<lambda>name.
        if name = ''ACCESS_KEY_ID'' then ''LTAI''
        else if name = ''ACCESS_KEY_SECRET'' then ''s3cret''
        else '''')\<rparr>"

text \<open>An instance role: the metadata service names the role and hands out a token.\<close>

definition sts_world :: "nat world" where
  "sts_world =
     dead_world\<lparr>meta_Role := Inr ''csi-role'',
       meta_RamRoleToken := (\<lambda>rolename.
         if rolename = ''csi-role''
         then Inr \<lparr>AccessKeyId = ''STS.id'', AccessKeySecret = ''STS.secret'',
                   SecurityToken = ''tok''\<rparr>
         else Inl (Error ''no such role'')),
       ecs_NewClientWithStsToken := (\<lambda>region id secret token. Inr 7)\<rparr>"

text \<open>The same instance role when the SDK cannot build a client from the token.\<close>

definition sts_fail_world :: "nat world" where
  "sts_fail_world =
     sts_world\<lparr>ecs_NewClientWithStsToken :=
       (\<lambda>region id secret token. Inl (Error ''no client''))\<rparr>"

text \<open>
  The metadata endpoint answers every request with status 404 and an error page, as a
  web server does for a resource it does not have.
\<close>

definition notfound_world :: "nat world" where
  "notfound_world =
     dead_world\<lparr>http_Get := (\<lambda>url. Inr \<lparr>StatusCode = 404, Body = Inr ''Not Found''\<rparr>)\<rparr>"

text \<open>The connection is made and the headers arrive, but reading the body breaks off.\<close>

definition broken_body_world :: "nat world" where
  "broken_body_world =
     dead_world\<lparr>http_Get := (\<lambda>url. Inr \<lparr>StatusCode = 200, Body = Inl (Error ''unexpected EOF'')\<rparr>)\<rparr>"

text \<open>The metadata endpoint knows the zone and the region of the instance.\<close>

definition cloud_world :: "nat world" where
  "cloud_world =
     dead_world\<lparr>http_Get := (\<lambda>url.
        if url = ''http://100.100.100.200/latest/meta-data/zone-id''
        then Inr \<lparr>StatusCode = 200, Body = Inr ''cn-hangzhou-b''\<rparr>
        else if url = ''http://100.100.100.200/latest/meta-data/region-id''
        then Inr \<lparr>StatusCode = 200, Body = Inr ''cn-hangzhou''\<rparr>
        else Inr \<lparr>StatusCode = 404, Body = Inr ''Not Found''\<rparr>)\<rparr>"

text \<open>
  A host on which \<open>/dev/vdb\<close> is mounted once at \<open>/mnt/disk\<close>: the first command prints the
  device and the second, \<open>wc -l\<close>, prints the count, each followed by a newline.
\<close>

definition mounted_world :: "nat world" where
  "mounted_world =
     dead_world\<lparr>sh_CombinedOutput := (\<lambda>cmd.
        if cmd = deviceCmd_of ''/mnt/disk'' then (''/dev/vdb'' @ [CHR 0x0A], None)
        else if cmd = deviceNumCmd_of ''/dev/vdb'' then (''1'' @ [CHR 0x0A], None)
        else ('''', Some (Error ''exit status 1'')))\<rparr>"

text \<open>The same host when the second command cannot be run.\<close>

definition half_mounted_world :: "nat world" where
  "half_mounted_world =
     dead_world\<lparr>sh_CombinedOutput := (\<lambda>cmd.
        if cmd = deviceCmd_of ''/mnt/disk'' then (''/dev/vdb'' @ [CHR 0x0A], None)
        else ('''', Some (Error ''exit status 1'')))\<rparr>"

subsection \<open>The canonical options of a request\<close>

text \<open>
  The options map that writes a parsed request back under the keys
  \<open>getDiskVolumeOptions\<close> reads, each field as its canonical string: the four strings as
  they are, the two booleans as Go formats them (\<open>strconv.FormatBool\<close>). This map is not
  part of the Go file; it states what \<open>parsing its own canonical output\<close> means.
\<close>

definition FormatBool :: "bool \<Rightarrow> string" where
  "FormatBool b = (if b then ''true'' else ''false'')"

definition canonicalOptions :: "diskVolumeArgs \<Rightarrow> (string \<rightharpoonup> string)" where
  "canonicalOptions args =
     [''zoneId'' \<mapsto> ZoneId args,
      ''regionId'' \<mapsto> RegionId args,
      ''fsType'' \<mapsto> FsType args,
      ''type'' \<mapsto> Type args,
      ''readOnly'' \<mapsto> FormatBool (ReadOnly args),
      ''encrypted'' \<mapsto> FormatBool (Encrypted args)]"

section \<open>Credential resolution\<close>

text \<open>
  C1. When both ACCESS_KEY_ID and ACCESS_KEY_SECRET are non-empty in the environment,
  GetDefaultAK returns exactly these two values with an empty session token, and the only
  outside calls it makes are the two environment lookups, so the metadata service is not
  consulted. When either variable is empty, it returns the triple of GetSTSAK and makes
  the calls of GetSTSAK after the two lookups.
\<close>

theorem GetDefaultAK_prefers_environment:
  "(Getenv w ''ACCESS_KEY_ID'' \<noteq> '''' \<and> Getenv w ''ACCESS_KEY_SECRET'' \<noteq> '''' \<longrightarrow>
      fst (GetDefaultAK w) = (Getenv w ''ACCESS_KEY_ID'', Getenv w ''ACCESS_KEY_SECRET'', '''')
      \<and> snd (GetDefaultAK w) = [CallGetenv ''ACCESS_KEY_ID'', CallGetenv ''ACCESS_KEY_SECRET'']
      \<and> (\<forall>c \<in> set (snd (GetDefaultAK w)). \<not> is_metadata_call c))
   \<and> (Getenv w ''ACCESS_KEY_ID'' = '''' \<or> Getenv w ''ACCESS_KEY_SECRET'' = '''' \<longrightarrow>
      fst (GetDefaultAK w) = fst (GetSTSAK w)
      \<and> snd (GetDefaultAK w) =
          [CallGetenv ''ACCESS_KEY_ID'', CallGetenv ''ACCESS_KEY_SECRET''] @ snd (GetSTSAK w))"
  by (auto simp: GetDefaultAK_def GetLocalAK_def Let_def split: prod.splits)

theorem GetDefaultAK_prefers_environment_witness:
  "(Getenv static_world ''ACCESS_KEY_ID'' \<noteq> '''' \<and> Getenv static_world ''ACCESS_KEY_SECRET'' \<noteq> '''')
   \<and> GetDefaultAK static_world =
       ((''LTAI'', ''s3cret'', ''''), [CallGetenv ''ACCESS_KEY_ID'', CallGetenv ''ACCESS_KEY_SECRET''])
   \<and> (Getenv sts_world ''ACCESS_KEY_ID'' = '''' \<or> Getenv sts_world ''ACCESS_KEY_SECRET'' = '''')
   \<and> GetDefaultAK sts_world =
       ((''STS.id'', ''STS.secret'', ''tok''),
        [CallGetenv ''ACCESS_KEY_ID'', CallGetenv ''ACCESS_KEY_SECRET'', CallRole,
         CallRamRoleToken ''csi-role''])"
  using GetDefaultAK_prefers_environment [of static_world]
        GetDefaultAK_prefers_environment [of sts_world]
  by (simp add: static_world_def sts_world_def dead_world_def GetSTSAK_def prod_eq_iff)

section \<open>Volume options: what the parser returns\<close>

text \<open>
  The result of \<open>getDiskVolumeOptions\<close> and its outside calls, with the local variables of
  the Go function folded away.
\<close>

lemma getDiskVolumeOptions_result:
  "fst (getDiskVolumeOptions w volOptions) =
     (let fsType = (case volOptions ''fsType'' of Some v \<Rightarrow> v | None \<Rightarrow> ''ext4'');
          type = (case volOptions ''type'' of Some v \<Rightarrow> v | None \<Rightarrow> DISK_HIGH_AVAIL)
      in if fsType \<noteq> ''ext4'' \<and> fsType \<noteq> ''ext3''
         then Inl (Errorf w ''illegal required parameter fsType'')
         else if type \<noteq> DISK_HIGH_AVAIL \<and> type \<noteq> DISK_COMMON
                 \<and> type \<noteq> DISK_EFFICIENCY \<and> type \<noteq> DISK_SSD
         then Inl (Errorf w (''Illegal required parameter type'' @ type))
         else Inr \<lparr>Type = type,
                   RegionId = (case volOptions ''regionId'' of
                                 Some v \<Rightarrow> v
                               | None \<Rightarrow> fst (GetMetaData w REGIONID_TAG)),
                   ZoneId = (case volOptions ''zoneId'' of
                               Some v \<Rightarrow> v
                             | None \<Rightarrow> fst (GetMetaData w ZONEID_TAG)),
                   FsType = fsType,
                   ReadOnly = (case volOptions ''readOnly'' of
                                 None \<Rightarrow> False
                               | Some v \<Rightarrow> truthy w v),
                   Encrypted = (case volOptions ''encrypted'' of
                                  None \<Rightarrow> False
                                | Some v \<Rightarrow> truthy w v)\<rparr>)"
  by (simp add: getDiskVolumeOptions_def Let_def case_prod_beta split: option.splits)

lemma getDiskVolumeOptions_calls:
  "snd (getDiskVolumeOptions w volOptions) =
     (case volOptions ''zoneId'' of
        Some v \<Rightarrow> []
      | None \<Rightarrow> [CallHttpGet (METADATA_URL @ ZONEID_TAG)])
     @ (case volOptions ''regionId'' of
          Some v \<Rightarrow> []
        | None \<Rightarrow> [CallHttpGet (METADATA_URL @ REGIONID_TAG)])"
  by (simp add: getDiskVolumeOptions_def GetMetaData_def Let_def case_prod_beta
           split: option.splits sum.splits)

lemma Errorf_fsType:
  "Errorf w ''illegal required parameter fsType'' = Error ''illegal required parameter fsType''"
  by (simp add: Errorf_def)

lemma truthy_iff: "truthy w v \<longleftrightarrow> ToLower w v \<in> {''yes'', ''true'', ''1''}"
  by (auto simp: truthy_def Let_def)

lemma ToLower_ascii: "list_all is_ascii s \<Longrightarrow> ToLower w s = map lower_ascii s"
  by (simp add: ToLower_def)

lemma truthy_FormatBool: "truthy w (FormatBool b) = b"
  by (simp add: truthy_def FormatBool_def ToLower_def is_ascii_def lower_ascii_def)

text \<open>
  C2. An options map whose fsType is present and is neither ext3 nor ext4 is refused with
  the fsType error; an options map whose type is present and is none of available, cloud,
  cloud_efficiency, cloud_ssd is refused with an error. In both cases the result is the
  error alone: no request comes back.
\<close>

theorem getDiskVolumeOptions_rejects_illegal:
  "((\<exists>v. volOptions ''fsType'' = Some v \<and> v \<noteq> ''ext3'' \<and> v \<noteq> ''ext4'') \<longrightarrow>
      fst (getDiskVolumeOptions w volOptions) = Inl (Error ''illegal required parameter fsType''))
   \<and> ((\<exists>v. volOptions ''type'' = Some v
            \<and> v \<notin> {''available'', ''cloud'', ''cloud_efficiency'', ''cloud_ssd''}) \<longrightarrow>
      (\<exists>err. fst (getDiskVolumeOptions w volOptions) = Inl err))"
  by (auto simp: getDiskVolumeOptions_result Errorf_fsType Let_def DISK_HIGH_AVAIL_def
        DISK_COMMON_def DISK_EFFICIENCY_def DISK_SSD_def)

theorem getDiskVolumeOptions_rejects_illegal_witness:
  "(\<exists>v. [''fsType'' \<mapsto> ''xfs''] ''fsType'' = Some v \<and> v \<noteq> ''ext3'' \<and> v \<noteq> ''ext4'')
   \<and> fst (getDiskVolumeOptions cloud_world [''fsType'' \<mapsto> ''xfs'']) =
       Inl (Error ''illegal required parameter fsType'')
   \<and> (\<exists>v. [''type'' \<mapsto> ''cloud_unknown''] ''type'' = Some v
          \<and> v \<notin> {''available'', ''cloud'', ''cloud_efficiency'', ''cloud_ssd''})
   \<and> (\<exists>err. fst (getDiskVolumeOptions cloud_world [''type'' \<mapsto> ''cloud_unknown'']) = Inl err)"
  using getDiskVolumeOptions_rejects_illegal [of "[''fsType'' \<mapsto> ''xfs'']" cloud_world]
        getDiskVolumeOptions_rejects_illegal [of "[''type'' \<mapsto> ''cloud_unknown'']" cloud_world]
  by simp

section \<open>Instance metadata\<close>

text \<open>
  C3, as the code has it. GetMetaData returns the empty string when the HTTP GET fails and
  when reading the body of the response fails. When a response arrives and its body is
  read, GetMetaData returns that body whatever the status code of the response is: the
  status code is never looked at.
\<close>

theorem GetMetaData_result:
  "(\<forall>err. http_Get w (METADATA_URL @ resource) = Inl err \<longrightarrow>
      fst (GetMetaData w resource) = '''')
   \<and> (\<forall>resp err. http_Get w (METADATA_URL @ resource) = Inr resp \<and> Body resp = Inl err \<longrightarrow>
      fst (GetMetaData w resource) = '''')
   \<and> (\<forall>resp body. http_Get w (METADATA_URL @ resource) = Inr resp \<and> Body resp = Inr body \<longrightarrow>
      fst (GetMetaData w resource) = body)
   \<and> snd (GetMetaData w resource) = [CallHttpGet (METADATA_URL @ resource)]"
  by (auto simp: GetMetaData_def split: sum.splits)

theorem GetMetaData_result_witness:
  "http_Get dead_world (METADATA_URL @ ''zone-id'') = Inl (Error ''timeout'')
   \<and> fst (GetMetaData dead_world ''zone-id'') = ''''
   \<and> http_Get broken_body_world (METADATA_URL @ ''zone-id'') =
       Inr \<lparr>StatusCode = 200, Body = Inl (Error ''unexpected EOF'')\<rparr>
   \<and> fst (GetMetaData broken_body_world ''zone-id'') = ''''
   \<and> http_Get cloud_world (METADATA_URL @ ''zone-id'') =
       Inr \<lparr>StatusCode = 200, Body = Inr ''cn-hangzhou-b''\<rparr>
   \<and> fst (GetMetaData cloud_world ''zone-id'') = ''cn-hangzhou-b''"
  using GetMetaData_result [of dead_world "''zone-id''"]
        GetMetaData_result [of broken_body_world "''zone-id''"]
        GetMetaData_result [of cloud_world "''zone-id''"]
  by (simp add: dead_world_def broken_body_world_def cloud_world_def METADATA_URL_def)

text \<open>
  C3 as written, that a response with a status other than 200 gives the empty string,
  fails: a 404 response with the body \<open>Not Found\<close> gives \<open>Not Found\<close>.
\<close>

theorem GetMetaData_non200_counterexample:
  "http_Get notfound_world (METADATA_URL @ ''zone-id'') =
     Inr \<lparr>StatusCode = 404, Body = Inr ''Not Found''\<rparr>
   \<and> fst (GetMetaData notfound_world ''zone-id'') = ''Not Found''
   \<and> fst (GetMetaData notfound_world ''zone-id'') \<noteq> ''''"
  by (simp add: GetMetaData_def notfound_world_def dead_world_def)

section \<open>Refreshing the client\<close>

lemma GetDefaultAK_calls_no_construction:
  "\<forall>c \<in> set (snd (GetDefaultAK w)). \<not> is_client_construction c"
  by (auto simp: GetDefaultAK_def GetLocalAK_def GetSTSAK_def Let_def
           split: prod.splits sum.splits if_splits)

text \<open>
  C4, as the code has it. updateEcsClent resolves the credentials anew with GetDefaultAK;
  let (id, secret, token) be what it gets. When the token is non-empty, it calls the SDK's
  STS constructor with them, as its last outside call, and returns what the constructor
  built, or nil when the constructor fails. When the token is empty it returns the given
  client unchanged, whatever credentials that client was built from. It calls an SDK
  constructor exactly when the token is non-empty; with static keys in the environment the
  token is empty, so the given client comes back and none is built.
\<close>

theorem updateEcsClent_refreshes_iff_token:
  assumes "fst (GetDefaultAK w) = (accessKeyID, accessSecret, accessToken)"
  shows "(accessToken \<noteq> '''' \<longrightarrow>
            fst (updateEcsClent w client) =
              (case ecs_NewClientWithStsToken w DEFAULT_REGION accessKeyID accessSecret
                      accessToken of
                 Inl err \<Rightarrow> None
               | Inr ecsClient \<Rightarrow> Some ecsClient)
            \<and> snd (updateEcsClent w client) =
                snd (GetDefaultAK w) @
                [CallNewClientWithStsToken DEFAULT_REGION accessKeyID accessSecret accessToken])
         \<and> (accessToken = '''' \<longrightarrow>
              updateEcsClent w client = (client, snd (GetDefaultAK w)))
         \<and> ((\<exists>c \<in> set (snd (updateEcsClent w client)). is_client_construction c)
              \<longleftrightarrow> accessToken \<noteq> '''')
         \<and> (Getenv w ''ACCESS_KEY_ID'' \<noteq> '''' \<and> Getenv w ''ACCESS_KEY_SECRET'' \<noteq> '''' \<longrightarrow>
              accessToken = '''' \<and> fst (updateEcsClent w client) = client)"
proof -
  obtain calls where ak: "GetDefaultAK w = ((accessKeyID, accessSecret, accessToken), calls)"
    using assms by (cases "GetDefaultAK w") auto
  have quiet: "\<forall>c \<in> set calls. \<not> is_client_construction c"
    using GetDefaultAK_calls_no_construction [of w] by (simp add: ak)
  have static: "Getenv w ''ACCESS_KEY_ID'' \<noteq> '''' \<and> Getenv w ''ACCESS_KEY_SECRET'' \<noteq> ''''
                  \<longrightarrow> accessToken = ''''"
    using ak by (auto simp: GetDefaultAK_def GetLocalAK_def Let_def split: prod.splits)
  show ?thesis
  proof (cases "accessToken = ''''")
    case True
    then have "updateEcsClent w client = (client, calls)"
      by (simp add: updateEcsClent_def ak)
    with True quiet show ?thesis by (simp add: ak)
  next
    case False
    then have "updateEcsClent w client =
        (case ecs_NewClientWithStsToken w DEFAULT_REGION accessKeyID accessSecret accessToken of
           Inl err \<Rightarrow> None
         | Inr ecsClient \<Rightarrow> Some ecsClient,
         calls @ [CallNewClientWithStsToken DEFAULT_REGION accessKeyID accessSecret
                    accessToken])"
      by (simp add: updateEcsClent_def ak newEcsClient_def)
    with False static show ?thesis by (auto simp: ak)
  qed
qed

theorem updateEcsClent_refreshes_iff_token_witness:
  "fst (GetDefaultAK sts_world) = (''STS.id'', ''STS.secret'', ''tok'')
   \<and> updateEcsClent sts_world (Some 3) =
       (Some 7,
        [CallGetenv ''ACCESS_KEY_ID'', CallGetenv ''ACCESS_KEY_SECRET'', CallRole,
         CallRamRoleToken ''csi-role'',
         CallNewClientWithStsToken ''cn-hangzhou'' ''STS.id'' ''STS.secret'' ''tok''])
   \<and> fst (GetDefaultAK static_world) = (''LTAI'', ''s3cret'', '''')
   \<and> updateEcsClent static_world (Some 3) =
       (Some 3, [CallGetenv ''ACCESS_KEY_ID'', CallGetenv ''ACCESS_KEY_SECRET''])
   \<and> fst (GetDefaultAK dead_world) = ('''', '''', '''')
   \<and> updateEcsClent dead_world (Some 7) =
       (Some 7, [CallGetenv ''ACCESS_KEY_ID'', CallGetenv ''ACCESS_KEY_SECRET'', CallRole])"
proof -
  have dead: "GetDefaultAK dead_world =
      (('''', '''', ''''),
       [CallGetenv ''ACCESS_KEY_ID'', CallGetenv ''ACCESS_KEY_SECRET'', CallRole])"
    by (simp add: GetDefaultAK_def GetLocalAK_def GetSTSAK_def dead_world_def)
  have h3: "fst (GetDefaultAK dead_world) = ('''', '''', '''')"
    by (simp add: dead)
  have c: "updateEcsClent dead_world (Some 7) =
       (Some 7, [CallGetenv ''ACCESS_KEY_ID'', CallGetenv ''ACCESS_KEY_SECRET'', CallRole])"
    using updateEcsClent_refreshes_iff_token [OF h3, of "Some 7"]
    by (simp add: dead)
  have sts: "GetDefaultAK sts_world =
      ((''STS.id'', ''STS.secret'', ''tok''),
       [CallGetenv ''ACCESS_KEY_ID'', CallGetenv ''ACCESS_KEY_SECRET'', CallRole,
        CallRamRoleToken ''csi-role''])"
    by (simp add: GetDefaultAK_def GetLocalAK_def GetSTSAK_def sts_world_def dead_world_def)
  have static: "GetDefaultAK static_world =
      ((''LTAI'', ''s3cret'', ''''),
       [CallGetenv ''ACCESS_KEY_ID'', CallGetenv ''ACCESS_KEY_SECRET''])"
    by (simp add: GetDefaultAK_def GetLocalAK_def static_world_def dead_world_def)
  have h1: "fst (GetDefaultAK sts_world) = (''STS.id'', ''STS.secret'', ''tok'')"
    by (simp add: sts)
  have h2: "fst (GetDefaultAK static_world) = (''LTAI'', ''s3cret'', '''')"
    by (simp add: static)
  have built: "ecs_NewClientWithStsToken sts_world DEFAULT_REGION ''STS.id'' ''STS.secret''
      ''tok'' = Inr 7"
    by (simp add: sts_world_def dead_world_def)
  have a: "updateEcsClent sts_world (Some 3) =
       (Some 7,
        [CallGetenv ''ACCESS_KEY_ID'', CallGetenv ''ACCESS_KEY_SECRET'', CallRole,
         CallRamRoleToken ''csi-role'',
         CallNewClientWithStsToken ''cn-hangzhou'' ''STS.id'' ''STS.secret'' ''tok''])"
    using updateEcsClent_refreshes_iff_token [OF h1, of "Some 3"]
    by (simp add: sts built prod_eq_iff) (simp add: DEFAULT_REGION_def)
  have b: "updateEcsClent static_world (Some 3) =
       (Some 3, [CallGetenv ''ACCESS_KEY_ID'', CallGetenv ''ACCESS_KEY_SECRET''])"
    using updateEcsClent_refreshes_iff_token [OF h2, of "Some 3"]
    by (simp add: static)
  show ?thesis
    using h1 h2 h3 a b c by simp
qed

text \<open>
  C4 as written fails where the SDK's constructor fails: the metadata service hands out a
  token, so the credentials carry a non-empty session token, but no new client comes back.
  updateEcsClent returns nil and the given client is lost.
\<close>

theorem updateEcsClent_nil_counterexample:
  "fst (GetDefaultAK sts_fail_world) = (''STS.id'', ''STS.secret'', ''tok'')
   \<and> ecs_NewClientWithStsToken sts_fail_world DEFAULT_REGION ''STS.id'' ''STS.secret'' ''tok'' =
       Inl (Error ''no client'')
   \<and> fst (updateEcsClent sts_fail_world (Some 3)) = None"
  by (simp add: updateEcsClent_def newEcsClient_def GetDefaultAK_def GetLocalAK_def
        GetSTSAK_def sts_fail_world_def sts_world_def dead_world_def)

section \<open>Credential resolution when everything fails\<close>

text \<open>
  C7. GetDefaultAK is a total function into triples of strings: it has no error result.
  When the environment does not give both keys and the metadata service fails, either at
  the role name or at the role token, the triple is three empty strings.
\<close>

theorem GetDefaultAK_empty_on_total_failure:
  assumes "Getenv w ''ACCESS_KEY_ID'' = '''' \<or> Getenv w ''ACCESS_KEY_SECRET'' = ''''"
    and "(\<exists>err. meta_Role w = Inl err)
         \<or> (\<exists>rolename err. meta_Role w = Inr rolename \<and> meta_RamRoleToken w rolename = Inl err)"
  shows "fst (GetDefaultAK w) = ('''', '''', '''')"
  using assms
  by (auto simp: GetDefaultAK_def GetLocalAK_def GetSTSAK_def Let_def split: prod.splits)

theorem GetDefaultAK_empty_on_total_failure_witness:
  "(Getenv dead_world ''ACCESS_KEY_ID'' = '''' \<or> Getenv dead_world ''ACCESS_KEY_SECRET'' = '''')
   \<and> ((\<exists>err. meta_Role dead_world = Inl err)
       \<or> (\<exists>rolename err. meta_Role dead_world = Inr rolename
             \<and> meta_RamRoleToken dead_world rolename = Inl err))
   \<and> fst (GetDefaultAK dead_world) = ('''', '''', '''')"
proof -
  have h1: "Getenv dead_world ''ACCESS_KEY_ID'' = '''' \<or> Getenv dead_world ''ACCESS_KEY_SECRET'' = ''''"
    by (simp add: dead_world_def)
  have h2: "(\<exists>err. meta_Role dead_world = Inl err)
       \<or> (\<exists>rolename err. meta_Role dead_world = Inr rolename
             \<and> meta_RamRoleToken dead_world rolename = Inl err)"
    by (simp add: dead_world_def)
  show ?thesis
    using h1 h2 GetDefaultAK_empty_on_total_failure [OF h1 h2] by simp
qed

section \<open>Volume options: zone, region and the two flags\<close>

text \<open>
  C5, as the code has it. In every successful parse, zoneId is the caller's value when the
  key is present, taken as it is, and otherwise the string GetMetaData returns for zone-id;
  regionId likewise with region-id. The metadata service is asked for exactly the keys the
  caller left out. So a field is non-empty exactly when the value it was taken from is
  non-empty, and nothing is checked: an empty value given by the caller, or an empty
  answer of GetMetaData, stays in the request.
\<close>

theorem getDiskVolumeOptions_zone_region:
  assumes "fst (getDiskVolumeOptions w volOptions) = Inr args"
  shows "ZoneId args = (case volOptions ''zoneId'' of
                          Some v \<Rightarrow> v
                        | None \<Rightarrow> fst (GetMetaData w ZONEID_TAG))
         \<and> RegionId args = (case volOptions ''regionId'' of
                              Some v \<Rightarrow> v
                            | None \<Rightarrow> fst (GetMetaData w REGIONID_TAG))
         \<and> snd (getDiskVolumeOptions w volOptions) =
             (case volOptions ''zoneId'' of
                Some v \<Rightarrow> []
              | None \<Rightarrow> [CallHttpGet (METADATA_URL @ ZONEID_TAG)])
             @ (case volOptions ''regionId'' of
                  Some v \<Rightarrow> []
                | None \<Rightarrow> [CallHttpGet (METADATA_URL @ REGIONID_TAG)])
         \<and> (ZoneId args \<noteq> '''' \<longleftrightarrow>
              (\<exists>v. volOptions ''zoneId'' = Some v \<and> v \<noteq> '''')
              \<or> (volOptions ''zoneId'' = None \<and> fst (GetMetaData w ZONEID_TAG) \<noteq> ''''))
         \<and> (RegionId args \<noteq> '''' \<longleftrightarrow>
              (\<exists>v. volOptions ''regionId'' = Some v \<and> v \<noteq> '''')
              \<or> (volOptions ''regionId'' = None \<and> fst (GetMetaData w REGIONID_TAG) \<noteq> ''''))"
proof -
  have zone: "ZoneId args = (case volOptions ''zoneId'' of
                               Some v \<Rightarrow> v
                             | None \<Rightarrow> fst (GetMetaData w ZONEID_TAG))"
    using assms by (auto simp: getDiskVolumeOptions_result Let_def split: if_splits)
  have region: "RegionId args = (case volOptions ''regionId'' of
                                   Some v \<Rightarrow> v
                                 | None \<Rightarrow> fst (GetMetaData w REGIONID_TAG))"
    using assms by (auto simp: getDiskVolumeOptions_result Let_def split: if_splits)
  have "ZoneId args \<noteq> '''' \<longleftrightarrow>
          (\<exists>v. volOptions ''zoneId'' = Some v \<and> v \<noteq> '''')
          \<or> (volOptions ''zoneId'' = None \<and> fst (GetMetaData w ZONEID_TAG) \<noteq> '''')"
    by (cases "volOptions ''zoneId''") (simp_all add: zone)
  moreover have "RegionId args \<noteq> '''' \<longleftrightarrow>
          (\<exists>v. volOptions ''regionId'' = Some v \<and> v \<noteq> '''')
          \<or> (volOptions ''regionId'' = None \<and> fst (GetMetaData w REGIONID_TAG) \<noteq> '''')"
    by (cases "volOptions ''regionId''") (simp_all add: region)
  ultimately show ?thesis
    using zone region getDiskVolumeOptions_calls [of w volOptions] by simp
qed

theorem getDiskVolumeOptions_zone_region_witness:
  "fst (getDiskVolumeOptions cloud_world [''regionId'' \<mapsto> ''cn-beijing'']) =
     Inr \<lparr>Type = ''available'', RegionId = ''cn-beijing'', ZoneId = ''cn-hangzhou-b'',
          FsType = ''ext4'', ReadOnly = False, Encrypted = False\<rparr>
   \<and> snd (getDiskVolumeOptions cloud_world [''regionId'' \<mapsto> ''cn-beijing'']) =
       [CallHttpGet ''http://100.100.100.200/latest/meta-data/zone-id'']"
proof -
  have zone: "fst (GetMetaData cloud_world ZONEID_TAG) = ''cn-hangzhou-b''"
    by (simp add: GetMetaData_def cloud_world_def dead_world_def METADATA_URL_def ZONEID_TAG_def)
  have parsed: "fst (getDiskVolumeOptions cloud_world [''regionId'' \<mapsto> ''cn-beijing'']) =
     Inr \<lparr>Type = ''available'', RegionId = ''cn-beijing'', ZoneId = ''cn-hangzhou-b'',
          FsType = ''ext4'', ReadOnly = False, Encrypted = False\<rparr>"
    by (simp add: getDiskVolumeOptions_result zone DISK_HIGH_AVAIL_def DISK_COMMON_def
          DISK_EFFICIENCY_def DISK_SSD_def)
  show ?thesis
    using parsed getDiskVolumeOptions_zone_region [OF parsed]
    by (simp add: METADATA_URL_def ZONEID_TAG_def)
qed

text \<open>
  C5 as written fails: with no options and a metadata service that cannot be reached, the parse succeeds and both zoneId and regionId are empty.
\<close>

theorem getDiskVolumeOptions_empty_zone_counterexample:
  "fst (getDiskVolumeOptions dead_world Map.empty) =
     Inr \<lparr>Type = ''available'', RegionId = '''', ZoneId = '''', FsType = ''ext4'',
          ReadOnly = False, Encrypted = False\<rparr>"
  by (simp add: getDiskVolumeOptions_def GetMetaData_def dead_world_def DISK_HIGH_AVAIL_def
        DISK_COMMON_def DISK_EFFICIENCY_def DISK_SSD_def)

text \<open>
  C6. In every successful parse ReadOnly is true exactly when the readOnly key is present
  and its value, lowercased by ToLower, is yes, true or 1; Encrypted likewise for the
  encrypted key. Whatever the two keys hold, present or absent, the parse fails with the
  same error or succeeds as it does without them: these fields never cause an error.
\<close>

theorem getDiskVolumeOptions_flags:
  "(\<forall>args. fst (getDiskVolumeOptions w volOptions) = Inr args \<longrightarrow>
      (ReadOnly args \<longleftrightarrow>
         (\<exists>v. volOptions ''readOnly'' = Some v \<and> ToLower w v \<in> {''yes'', ''true'', ''1''}))
      \<and> (Encrypted args \<longleftrightarrow>
         (\<exists>v. volOptions ''encrypted'' = Some v \<and> ToLower w v \<in> {''yes'', ''true'', ''1''})))
   \<and> (\<forall>err. fst (getDiskVolumeOptions w (volOptions(''readOnly'' := ro, ''encrypted'' := enc)))
               = Inl err
             \<longleftrightarrow> fst (getDiskVolumeOptions w volOptions) = Inl err)"
proof -
  have flags: "\<forall>args. fst (getDiskVolumeOptions w volOptions) = Inr args \<longrightarrow>
      (ReadOnly args \<longleftrightarrow>
         (\<exists>v. volOptions ''readOnly'' = Some v \<and> ToLower w v \<in> {''yes'', ''true'', ''1''}))
      \<and> (Encrypted args \<longleftrightarrow>
         (\<exists>v. volOptions ''encrypted'' = Some v \<and> ToLower w v \<in> {''yes'', ''true'', ''1''}))"
    by (auto simp: getDiskVolumeOptions_result Let_def truthy_iff
             split: if_splits option.splits)
  have errors: "\<forall>err. fst (getDiskVolumeOptions w
                              (volOptions(''readOnly'' := ro, ''encrypted'' := enc))) = Inl err
             \<longleftrightarrow> fst (getDiskVolumeOptions w volOptions) = Inl err"
    by (simp add: getDiskVolumeOptions_result Let_def)
  from flags errors show ?thesis by blast
qed

theorem getDiskVolumeOptions_flags_witness:
  "fst (getDiskVolumeOptions cloud_world [''readOnly'' \<mapsto> ''YES'', ''encrypted'' \<mapsto> ''on'']) =
     Inr \<lparr>Type = ''available'', RegionId = ''cn-hangzhou'', ZoneId = ''cn-hangzhou-b'',
          FsType = ''ext4'', ReadOnly = True, Encrypted = False\<rparr>
   \<and> ToLower cloud_world ''YES'' = ''yes'' \<and> ToLower cloud_world ''on'' = ''on''"
proof -
  let ?opts = "[''readOnly'' \<mapsto> ''YES'', ''encrypted'' \<mapsto> ''on'']"
  have zone: "fst (GetMetaData cloud_world ZONEID_TAG) = ''cn-hangzhou-b''"
    by (simp add: GetMetaData_def cloud_world_def dead_world_def METADATA_URL_def ZONEID_TAG_def)
  have region: "fst (GetMetaData cloud_world REGIONID_TAG) = ''cn-hangzhou''"
    by (simp add: GetMetaData_def cloud_world_def dead_world_def METADATA_URL_def
          REGIONID_TAG_def)
  have lower: "ToLower cloud_world ''YES'' = ''yes'' \<and> ToLower cloud_world ''on'' = ''on''"
    by (simp add: ToLower_def is_ascii_def lower_ascii_def char_of_def bit_0)
  obtain args where parsed: "fst (getDiskVolumeOptions cloud_world ?opts) = Inr args"
    and rest: "Type args = ''available''" "RegionId args = ''cn-hangzhou''"
      "ZoneId args = ''cn-hangzhou-b''" "FsType args = ''ext4''"
    by (simp add: getDiskVolumeOptions_result zone region DISK_HIGH_AVAIL_def DISK_COMMON_def
          DISK_EFFICIENCY_def DISK_SSD_def)
  have "ReadOnly args \<and> \<not> Encrypted args"
    using getDiskVolumeOptions_flags [of cloud_world ?opts] parsed lower by simp
  with parsed rest lower show ?thesis by simp
qed

section \<open>Parsing the canonical options again\<close>

lemma canonicalOptions_lookup:
  "canonicalOptions args ''zoneId'' = Some (ZoneId args)"
  "canonicalOptions args ''regionId'' = Some (RegionId args)"
  "canonicalOptions args ''fsType'' = Some (FsType args)"
  "canonicalOptions args ''type'' = Some (Type args)"
  "canonicalOptions args ''readOnly'' = Some (FormatBool (ReadOnly args))"
  "canonicalOptions args ''encrypted'' = Some (FormatBool (Encrypted args))"
  by (simp_all add: canonicalOptions_def)

lemma accepted_fields:
  assumes "fst (getDiskVolumeOptions w volOptions) = Inr args"
  shows "(FsType args = ''ext4'' \<or> FsType args = ''ext3'')
         \<and> (Type args = DISK_HIGH_AVAIL \<or> Type args = DISK_COMMON
            \<or> Type args = DISK_EFFICIENCY \<or> Type args = DISK_SSD)"
  using assms by (auto simp: getDiskVolumeOptions_result Let_def split: if_splits)

text \<open>
  C8. When getDiskVolumeOptions accepts an options map and returns a request, parsing the
  canonical options of that request returns the same request, in any world, and makes no
  outside call: zone and region are present in the canonical options, so the metadata
  service is not asked again.
\<close>

theorem getDiskVolumeOptions_idempotent:
  assumes "fst (getDiskVolumeOptions w volOptions) = Inr args"
  shows "getDiskVolumeOptions w' (canonicalOptions args) = (Inr args, [])"
proof -
  have ok: "(FsType args = ''ext4'' \<or> FsType args = ''ext3'')
         \<and> (Type args = DISK_HIGH_AVAIL \<or> Type args = DISK_COMMON
            \<or> Type args = DISK_EFFICIENCY \<or> Type args = DISK_SSD)"
    using accepted_fields [OF assms] .
  have "fst (getDiskVolumeOptions w' (canonicalOptions args)) =
          Inr \<lparr>Type = Type args, RegionId = RegionId args, ZoneId = ZoneId args,
               FsType = FsType args, ReadOnly = ReadOnly args, Encrypted = Encrypted args\<rparr>"
    using ok
    by (simp only: getDiskVolumeOptions_result canonicalOptions_lookup option.case Let_def
          truthy_FormatBool) auto
  then have "fst (getDiskVolumeOptions w' (canonicalOptions args)) = Inr args"
    by simp
  moreover have "snd (getDiskVolumeOptions w' (canonicalOptions args)) = []"
    by (simp add: getDiskVolumeOptions_calls canonicalOptions_lookup)
  ultimately show ?thesis
    by (simp add: prod_eq_iff)
qed

theorem getDiskVolumeOptions_idempotent_witness:
  "fst (getDiskVolumeOptions cloud_world [''type'' \<mapsto> ''cloud_ssd'', ''readOnly'' \<mapsto> ''1'']) =
     Inr \<lparr>Type = ''cloud_ssd'', RegionId = ''cn-hangzhou'', ZoneId = ''cn-hangzhou-b'',
          FsType = ''ext4'', ReadOnly = True, Encrypted = False\<rparr>
   \<and> getDiskVolumeOptions dead_world
       [''zoneId'' \<mapsto> ''cn-hangzhou-b'', ''regionId'' \<mapsto> ''cn-hangzhou'', ''fsType'' \<mapsto> ''ext4'',
        ''type'' \<mapsto> ''cloud_ssd'', ''readOnly'' \<mapsto> ''true'', ''encrypted'' \<mapsto> ''false''] =
     (Inr \<lparr>Type = ''cloud_ssd'', RegionId = ''cn-hangzhou'', ZoneId = ''cn-hangzhou-b'',
           FsType = ''ext4'', ReadOnly = True, Encrypted = False\<rparr>, [])"
proof -
  have zone: "fst (GetMetaData cloud_world ZONEID_TAG) = ''cn-hangzhou-b''"
    by (simp add: GetMetaData_def cloud_world_def dead_world_def METADATA_URL_def ZONEID_TAG_def)
  have region: "fst (GetMetaData cloud_world REGIONID_TAG) = ''cn-hangzhou''"
    by (simp add: GetMetaData_def cloud_world_def dead_world_def METADATA_URL_def
          REGIONID_TAG_def)
  have one: "truthy cloud_world ''1''"
    by (simp add: truthy_def ToLower_def is_ascii_def lower_ascii_def)
  have parsed:
    "fst (getDiskVolumeOptions cloud_world [''type'' \<mapsto> ''cloud_ssd'', ''readOnly'' \<mapsto> ''1'']) =
       Inr \<lparr>Type = ''cloud_ssd'', RegionId = ''cn-hangzhou'', ZoneId = ''cn-hangzhou-b'',
            FsType = ''ext4'', ReadOnly = True, Encrypted = False\<rparr>"
    by (simp add: getDiskVolumeOptions_result zone region one DISK_HIGH_AVAIL_def
          DISK_COMMON_def DISK_EFFICIENCY_def DISK_SSD_def)
  show ?thesis
    using parsed getDiskVolumeOptions_idempotent [OF parsed, of dead_world]
    by (simp add: canonicalOptions_def FormatBool_def)
qed

section \<open>Counting mounts\<close>

text \<open>
  C10. GetDeviceMountNum returns a number and nothing else. It returns 0 when the first
  command fails, when the second command (built from the first one's output without its
  trailing newline) fails, and when the output of the second command is not an integer for
  Atoi.
\<close>

theorem GetDeviceMountNum_zero_on_failure:
  assumes "(\<exists>err. fst (run w (deviceCmd_of targetPath)) = Inl err)
     \<or> (\<exists>out. fst (run w (deviceCmd_of targetPath)) = Inr out \<and>
          ((\<exists>err. fst (run w (deviceNumCmd_of (TrimSuffix out [CHR 0x0A]))) = Inl err)
           \<or> (\<exists>numOut. fst (run w (deviceNumCmd_of (TrimSuffix out [CHR 0x0A]))) = Inr numOut
                 \<and> Atoi numOut = None)))"
  shows "fst (GetDeviceMountNum w targetPath) = 0"
  using assms
  by (auto simp: GetDeviceMountNum_def Let_def split: prod.splits sum.splits option.splits)

theorem GetDeviceMountNum_zero_on_failure_witness:
  "(\<exists>err. fst (run dead_world (deviceCmd_of ''/mnt/disk'')) = Inl err)
   \<and> fst (GetDeviceMountNum dead_world ''/mnt/disk'') = 0
   \<and> fst (run half_mounted_world (deviceCmd_of ''/mnt/disk'')) = Inr (''/dev/vdb'' @ [CHR 0x0A])
   \<and> (\<exists>err. fst (run half_mounted_world (deviceNumCmd_of ''/dev/vdb'')) = Inl err)
   \<and> fst (GetDeviceMountNum half_mounted_world ''/mnt/disk'') = 0
   \<and> fst (run mounted_world (deviceCmd_of ''/mnt/disk'')) = Inr (''/dev/vdb'' @ [CHR 0x0A])
   \<and> fst (run mounted_world (deviceNumCmd_of ''/dev/vdb'')) = Inr (''1'' @ [CHR 0x0A])
   \<and> Atoi (''1'' @ [CHR 0x0A]) = None
   \<and> fst (GetDeviceMountNum mounted_world ''/mnt/disk'') = 0"
proof -
  have differ: "deviceNumCmd_of ''/dev/vdb'' \<noteq> deviceCmd_of ''/mnt/disk''"
    by (simp add: deviceNumCmd_of_def deviceCmd_of_def)
  have d1: "\<exists>err. fst (run dead_world (deviceCmd_of ''/mnt/disk'')) = Inl err"
    by (simp add: run_def dead_world_def)
  have h1: "fst (run half_mounted_world (deviceCmd_of ''/mnt/disk'')) =
              Inr (''/dev/vdb'' @ [CHR 0x0A])"
    by (simp add: run_def half_mounted_world_def dead_world_def)
  have h2: "\<exists>err. fst (run half_mounted_world (deviceNumCmd_of ''/dev/vdb'')) = Inl err"
    using differ by (simp add: run_def half_mounted_world_def dead_world_def)
  have m1: "fst (run mounted_world (deviceCmd_of ''/mnt/disk'')) =
              Inr (''/dev/vdb'' @ [CHR 0x0A])"
    by (simp add: run_def mounted_world_def dead_world_def)
  have m2: "fst (run mounted_world (deviceNumCmd_of ''/dev/vdb'')) = Inr (''1'' @ [CHR 0x0A])"
    using differ by (simp add: run_def mounted_world_def dead_world_def)
  have unparsable: "Atoi (''1'' @ [CHR 0x0A]) = None"
    by (simp add: Atoi_def digit_value_def)
  have dead: "fst (GetDeviceMountNum dead_world ''/mnt/disk'') = 0"
    using d1 by (intro GetDeviceMountNum_zero_on_failure) simp
  have half: "fst (GetDeviceMountNum half_mounted_world ''/mnt/disk'') = 0"
    using h1 h2 by (intro GetDeviceMountNum_zero_on_failure) (simp add: TrimSuffix_def HasSuffix_def)
  have mounted: "fst (GetDeviceMountNum mounted_world ''/mnt/disk'') = 0"
    using m1 m2 unparsable by (intro GetDeviceMountNum_zero_on_failure) (simp add: TrimSuffix_def HasSuffix_def)
  show ?thesis
    using d1 h1 h2 m1 m2 unparsable dead half mounted by simp
qed

end
